theory Spec2Isabelle
  imports Main "HOL-Library.Sublist"
begin

section \<open>The Lua side: argument values and the auxiliary-library checks\<close>

text \<open>
  \<^verbatim>\<open>csr_crt\<close> is a Lua C function. Its arguments are the values on the Lua stack,
  index 1 first. Only the kind of a value matters to the checks of the function; a
  number is accepted where a string is expected and is converted to its text.
\<close>

datatype lua_value =
    LNil
  | LBoolean bool
  | LNumber int
  | LString string
  | LTable
  | LFunction
  | LUserdata
  | LLightUserdata
  | LThread

section \<open>The OpenSSL side: objects and the environment of one invocation\<close>

type_synonym x509_name = string
type_synonym evp_pkey = string

datatype evp_md = EVP_sha256

record x509_req =
  rq_subject :: "x509_name option"
  rq_pubkey :: "evp_pkey option"
  rq_signature :: string

record x509 =
  version :: "int option"
  serialNumber :: "int option"
  subject :: "x509_name option"
  issuer :: "x509_name option"
  pubkey :: "evp_pkey option"
  notBefore :: "int option"
  notAfter :: "int option"
  signature :: "(evp_md \<times> string) option"

definition X509_new :: x509 where
  "X509_new = \<lparr>version = None, serialNumber = None, subject = None, issuer = None,
     pubkey = None, notBefore = None, notAfter = None, signature = None\<rparr>"

text \<open>The pointer variables that the cleanup block of \<^verbatim>\<open>csr_crt\<close> tests.\<close>

datatype var =
    V_pkeybio | V_pKey | V_cacertbio | V_cacert | V_req_pubkey
  | V_reqbio | V_certreq | V_newcert | V_outbio

text \<open>
  The library calls of the body, one constructor per call site, in the order of the
  source text.
\<close>

datatype libcall =
    C_BIO_new_mem_buf var
  | C_PEM_read_bio_RSAPrivateKey
  | C_EVP_PKEY_new
  | C_EVP_PKEY_assign_RSA
  | C_PEM_read_bio_X509
  | C_PEM_read_bio_X509_REQ
  | C_X509_new
  | C_X509_set_version
  | C_X509_set_pubkey var
  | C_ASN1_INTEGER_new
  | C_ASN1_INTEGER_set
  | C_X509_set_serialNumber
  | C_X509_REQ_get_subject_name
  | C_X509_set_subject_name
  | C_X509_get_subject_name
  | C_X509_set_issuer_name
  | C_X509_REQ_get_pubkey
  | C_X509_REQ_verify
  | C_X509_gmtime_adj_notBefore
  | C_X509_gmtime_adj_notAfter
  | C_X509V3_set_ctx
  | C_EVP_sha256
  | C_X509_sign
  | C_BIO_new_mem
  | C_PEM_write_bio_X509
  | C_BIO_get_mem_ptr
  | C_lua_pushlstring
  | C_BUF_MEM_free

text \<open>
  Everything \<^verbatim>\<open>csr_crt\<close> obtains from outside its own text is a field of the
  environment: what the PEM readers decode, whether a request verifies, which of the
  fallible library calls fails in this invocation, the clock, the text of a Lua number,
  the bytes that lie in memory behind the content of the output buffer, and whether a
  pointer variable that was never assigned happens to hold a non-NULL bit pattern.

  A call whose result the source tests fails when the environment says so; the
  allocations whose result the source does not test (\<^verbatim>\<open>BIO_new_mem_buf\<close>,
  \<^verbatim>\<open>EVP_PKEY_new\<close>, \<^verbatim>\<open>ASN1_INTEGER_new\<close>, \<^verbatim>\<open>BIO_new\<close>) succeed. The frame keeps a
  ledger of what was acquired and of what was handed to a release function.

  Three things end an invocation without a return to Lua, because the behaviour of the
  program is undefined from there on: an accessor of the library that is handed the NULL
  pointer and dereferences it, a release function that is handed the non-NULL content of
  a pointer variable that was never assigned, and a release function that is handed an
  object that has been released before.
\<close>

record env =
  PEM_read_bio_RSAPrivateKey :: "string \<Rightarrow> string \<Rightarrow> evp_pkey option"
  PEM_read_bio_X509 :: "string \<Rightarrow> x509 option"
  PEM_read_bio_X509_REQ :: "string \<Rightarrow> x509_req option"
  X509_REQ_verify :: "x509_req \<Rightarrow> evp_pkey \<Rightarrow> int"
  X509_sign :: "x509 \<Rightarrow> evp_pkey \<Rightarrow> evp_md \<Rightarrow> string"
  PEM_write_bio_X509 :: "x509 \<Rightarrow> string"
  lib_fails :: "libcall \<Rightarrow> bool"
  time :: "nat \<Rightarrow> int"
  lua_tolstring_number :: "int \<Rightarrow> string"
  past_end :: "nat \<Rightarrow> char"
  stale :: "var \<Rightarrow> bool"

section \<open>The frame of one invocation\<close>

text \<open>
  A local pointer variable is indeterminate until its declaration has been executed;
  the \<^verbatim>\<open>goto __error\<close> statements jump over the declarations that follow them.
\<close>

datatype 'a local = Indeterminate | Null | Ptr 'a

text \<open>
  The objects whose ownership the invocation acquires. \<open>O_stale v\<close> is whatever an
  unassigned variable \<open>v\<close> points to.
\<close>

datatype obj =
    O_pkeybio | O_rsa | O_pKey | O_cacertbio | O_cacert | O_reqbio | O_certreq
  | O_newcert | O_aserial | O_req_pubkey | O_outbio | O_bptr | O_stale var

record frame =
  rc :: nat
  pkey :: string
  crt :: string
  csr :: string
  pkeybio :: "unit local"
  pKey :: "evp_pkey local"
  cacertbio :: "unit local"
  cacert :: "x509 local"
  reqbio :: "unit local"
  certreq :: "x509_req local"
  newcert :: "x509 local"
  req_pubkey :: "evp_pkey local"
  outbio :: "string local"
  clock_reads :: nat
  stderr :: "string list"
  calls :: "libcall list"
  allocs :: "obj list"
  frees :: "obj list"
  pushed :: "string list"

definition frame0 :: frame where
  "frame0 = \<lparr>rc = 0, pkey = [], crt = [], csr = [],
     pkeybio = Indeterminate, pKey = Indeterminate, cacertbio = Indeterminate,
     cacert = Indeterminate, reqbio = Indeterminate, certreq = Indeterminate,
     newcert = Indeterminate, req_pubkey = Indeterminate, outbio = Indeterminate,
     clock_reads = 0, stderr = [], calls = [], allocs = [], frees = [], pushed = []\<rparr>"

text \<open>How a statement block ends: the next block follows, or \<^verbatim>\<open>goto __error\<close>, or a Lua
  error leaves the function by a long jump, or the behaviour has become undefined.\<close>

datatype flow = Continue frame | Goto_error frame | Lua_error frame | Fault frame

text \<open>How an invocation ends: it returns \<^verbatim>\<open>rc\<close> to Lua, it raises a Lua error, or it
  dies in undefined behaviour. Each carries the frame at that moment.\<close>

datatype result = Return frame | Raise frame | Dies frame


section \<open>The Lua auxiliary functions used by \<^verbatim>\<open>csr_crt\<close>\<close>

definition lua_gettop :: "lua_value list \<Rightarrow> nat" where
  "lua_gettop L = length L"

text \<open>\<^verbatim>\<open>lua_isstring\<close> is 1 for a string or a number, 0 for everything else and for a
  stack index that holds no value.\<close>

definition lua_isstring :: "lua_value list \<Rightarrow> nat \<Rightarrow> int" where
  "lua_isstring L i =
     (if 1 \<le> i \<and> i \<le> length L then
        (case L ! (i - 1) of LString s \<Rightarrow> 1 | LNumber n \<Rightarrow> 1 | _ \<Rightarrow> 0)
      else 0)"

text \<open>\<^verbatim>\<open>luaL_checklstring\<close> returns the bytes of a string or the text of a number;
  for any other argument it raises a Lua error (\<open>None\<close>), which leaves the C function by
  a long jump.\<close>

definition luaL_checklstring :: "env \<Rightarrow> lua_value list \<Rightarrow> nat \<Rightarrow> string option" where
  "luaL_checklstring e L i =
     (if 1 \<le> i \<and> i \<le> length L then
        (case L ! (i - 1) of
           LString s \<Rightarrow> Some s
         | LNumber n \<Rightarrow> Some (lua_tolstring_number e n)
         | _ \<Rightarrow> None)
      else None)"

text \<open>\<^verbatim>\<open>lua_pushlstring(L, s, len)\<close> copies exactly \<open>len\<close> bytes starting at \<open>s\<close>:
  the bytes of the buffer content first and, beyond its end, whatever lies in memory there.\<close>

definition read_bytes :: "env \<Rightarrow> string \<Rightarrow> nat \<Rightarrow> string" where
  "read_bytes e content n =
     map (\<lambda>i. if i < length content then content ! i else past_end e (i - length content))
       [0..<n]"

definition lua_pushlstring :: "string \<Rightarrow> frame \<Rightarrow> frame" where
  "lua_pushlstring s fr = fr\<lparr>pushed := pushed fr @ [s]\<rparr>"

section \<open>Diagnostics, the call trace and the ownership ledger\<close>

text \<open>The diagnostic lines are kept without their line terminator.\<close>

definition fprintf_stderr :: "string \<Rightarrow> frame \<Rightarrow> frame" where
  "fprintf_stderr msg fr = fr\<lparr>stderr := stderr fr @ [msg]\<rparr>"

text \<open>\<^verbatim>\<open>err_descr_to_stderr\<close> prints its pattern followed by the text of the library's
  last error; the pattern is what the model keeps.\<close>

definition err_descr_to_stderr :: "string \<Rightarrow> frame \<Rightarrow> frame" where
  "err_descr_to_stderr err_patern fr = fprintf_stderr err_patern fr"

definition call :: "libcall \<Rightarrow> frame \<Rightarrow> frame" where
  "call c fr = fr\<lparr>calls := calls fr @ [c]\<rparr>"

definition alloc :: "obj \<Rightarrow> frame \<Rightarrow> frame" where
  "alloc ob fr = fr\<lparr>allocs := allocs fr @ [ob]\<rparr>"

text \<open>
  What a release function of the library frees besides the object it is given:
  \<^verbatim>\<open>EVP_PKEY_assign_RSA\<close> hands the RSA structure over to the \<^verbatim>\<open>EVP_PKEY\<close>, and a
  memory BIO owns its \<^verbatim>\<open>BUF_MEM\<close> (the close flag is never cleared by \<^verbatim>\<open>csr_crt\<close>).
\<close>

fun owned :: "obj \<Rightarrow> obj list" where
  "owned O_pKey = [O_rsa]"
| "owned O_outbio = [O_bptr]"
| "owned _ = []"

definition free :: "obj \<Rightarrow> frame \<Rightarrow> frame" where
  "free ob fr = fr\<lparr>frees := frees fr @ ob # owned ob\<rparr>"

section \<open>The body of \<^verbatim>\<open>csr_crt\<close>, statement block by statement block\<close>

definition check_argc :: "lua_value list \<Rightarrow> frame \<Rightarrow> flow" where
  "check_argc L fr =
     (if lua_gettop L < 3 then
        Goto_error (fprintf_stderr ''you must pass one argument: (priv_key, csr)!'' fr)
      else Continue fr)"

definition arg_pkey :: "env \<Rightarrow> lua_value list \<Rightarrow> frame \<Rightarrow> flow" where
  "arg_pkey e L fr =
     (if lua_isstring L 1 \<noteq> 1 then
        Goto_error (fprintf_stderr ''first argument must be string: private key!'' fr)
      else
        (case luaL_checklstring e L 1 of
           None \<Rightarrow> Lua_error fr
         | Some s \<Rightarrow>
             (if length s = 0 then
                Goto_error (fprintf_stderr ''pkey length should greater then zero!''
                  (fr\<lparr>pkey := s\<rparr>))
              else Continue (fr\<lparr>pkey := s\<rparr>))))"

definition arg_crt :: "env \<Rightarrow> lua_value list \<Rightarrow> frame \<Rightarrow> flow" where
  "arg_crt e L fr =
     (if lua_isstring L 2 \<noteq> 1 then
        Goto_error (fprintf_stderr ''second argument must be string: crt!'' fr)
      else
        (case luaL_checklstring e L 2 of
           None \<Rightarrow> Lua_error fr
         | Some s \<Rightarrow>
             (if length s = 0 then
                Goto_error (fprintf_stderr ''crt length should greater then zero!''
                  (fr\<lparr>crt := s\<rparr>))
              else Continue (fr\<lparr>crt := s\<rparr>))))"

definition arg_csr :: "env \<Rightarrow> lua_value list \<Rightarrow> frame \<Rightarrow> flow" where
  "arg_csr e L fr =
     (if lua_isstring L 3 \<noteq> 1 then
        Goto_error (fprintf_stderr ''third argument must be string: csr!'' fr)
      else
        (case luaL_checklstring e L 3 of
           None \<Rightarrow> Lua_error fr
         | Some s \<Rightarrow>
             (if length s = 0 then
                Goto_error (fprintf_stderr ''csr length should greater then zero!''
                  (fr\<lparr>csr := s\<rparr>))
              else Continue (fr\<lparr>csr := s\<rparr>))))"

text \<open>Lines 124 to 135: the key BIO, the RSA key read with the fixed password, and the
  \<^verbatim>\<open>EVP_PKEY\<close> that takes the RSA key over.\<close>

definition load_pkey :: "env \<Rightarrow> frame \<Rightarrow> flow" where
  "load_pkey e fr =
     (let password = ''replace_me'';
          fr1 = alloc O_pkeybio (call (C_BIO_new_mem_buf V_pkeybio) fr)\<lparr>pkeybio := Ptr ()\<rparr>;
          fr2 = call C_PEM_read_bio_RSAPrivateKey fr1
      in case PEM_read_bio_RSAPrivateKey e (pkey fr) password of
           None \<Rightarrow> Goto_error (err_descr_to_stderr ''Failed to create key bio'' fr2)
         | Some rsa \<Rightarrow>
             Continue
               ((call C_EVP_PKEY_assign_RSA
                  (alloc O_pKey (call C_EVP_PKEY_new (alloc O_rsa fr2))))\<lparr>pKey := Ptr rsa\<rparr>))"

text \<open>Lines 138 to 140: the CA certificate is read; the result is not tested.\<close>

definition load_cacert :: "env \<Rightarrow> frame \<Rightarrow> flow" where
  "load_cacert e fr =
     (let fr1 = alloc O_cacertbio (call (C_BIO_new_mem_buf V_cacertbio) fr)\<lparr>cacertbio := Ptr ()\<rparr>;
          fr2 = call C_PEM_read_bio_X509 fr1
      in case PEM_read_bio_X509 e (crt fr) of
           None \<Rightarrow> Continue (fr2\<lparr>cacert := Null\<rparr>)
         | Some c \<Rightarrow> Continue ((alloc O_cacert fr2)\<lparr>cacert := Ptr c\<rparr>))"

text \<open>Lines 146 to 151.\<close>

definition load_csr :: "env \<Rightarrow> frame \<Rightarrow> flow" where
  "load_csr e fr =
     (let fr1 = alloc O_reqbio (call (C_BIO_new_mem_buf V_reqbio) fr)\<lparr>reqbio := Ptr ()\<rparr>;
          fr2 = call C_PEM_read_bio_X509_REQ (fr1\<lparr>certreq := Null\<rparr>)
      in case PEM_read_bio_X509_REQ e (csr fr) of
           None \<Rightarrow>
             Goto_error
               (err_descr_to_stderr ''Error can't read X509 request data into memory'' fr2)
         | Some r \<Rightarrow> Continue ((alloc O_certreq fr2)\<lparr>certreq := Ptr r\<rparr>))"


text \<open>The statements that follow work through the pointers held by the frame.\<close>

definition with_newcert :: "(x509 \<Rightarrow> x509) \<Rightarrow> frame \<Rightarrow> frame" where
  "with_newcert f fr = fr\<lparr>newcert := (case newcert fr of Ptr c \<Rightarrow> Ptr (f c) | l \<Rightarrow> l)\<rparr>"

definition deref :: "'a local \<Rightarrow> 'a option" where
  "deref l = (case l of Ptr x \<Rightarrow> Some x | _ \<Rightarrow> None)"

text \<open>Lines 157 to 161.\<close>

definition new_cert :: "env \<Rightarrow> frame \<Rightarrow> flow" where
  "new_cert e fr =
     (let fr1 = call C_X509_new (fr\<lparr>newcert := Null\<rparr>)
      in if lib_fails e C_X509_new then
           Goto_error (err_descr_to_stderr ''Error creating new X509 object'' fr1)
         else Continue ((alloc O_newcert fr1)\<lparr>newcert := Ptr X509_new\<rparr>))"

text \<open>Lines 163 to 166: the version field receives the number 2.\<close>

definition set_version :: "env \<Rightarrow> frame \<Rightarrow> flow" where
  "set_version e fr =
     (let fr1 = call C_X509_set_version fr
      in if lib_fails e C_X509_set_version then
           Goto_error (err_descr_to_stderr ''Error setting certificate version'' fr1)
         else Continue (with_newcert (\<lambda>c. c\<lparr>version := Some 2\<rparr>) fr1))"

text \<open>Lines 168 to 171: the key of the CA is stored as the public key.\<close>

definition set_pubkey_pKey :: "env \<Rightarrow> frame \<Rightarrow> flow" where
  "set_pubkey_pKey e fr =
     (let fr1 = call (C_X509_set_pubkey V_pKey) fr
      in if lib_fails e (C_X509_set_pubkey V_pKey) then
           Goto_error (err_descr_to_stderr ''X509_set_pubkey'' fr1)
         else Continue (with_newcert (\<lambda>c. c\<lparr>pubkey := deref (pKey fr)\<rparr>) fr1))"

text \<open>Lines 173 to 179: a fresh \<^verbatim>\<open>ASN1_INTEGER\<close> is set to 0 and
  \<^verbatim>\<open>X509_set_serialNumber\<close> stores a copy of it in the certificate; the integer itself
  stays with \<^verbatim>\<open>csr_crt\<close>.\<close>

definition set_serial :: "env \<Rightarrow> frame \<Rightarrow> flow" where
  "set_serial e fr =
     (let aserial = (0::int);
          fr1 = call C_X509_set_serialNumber
                  (call C_ASN1_INTEGER_set (alloc O_aserial (call C_ASN1_INTEGER_new fr)))
      in if lib_fails e C_X509_set_serialNumber then
           Goto_error
             (err_descr_to_stderr ''Error setting serial number of the certificate'' fr1)
         else Continue (with_newcert (\<lambda>c. c\<lparr>serialNumber := Some aserial\<rparr>) fr1))"

text \<open>Lines 184 to 196.\<close>

definition set_subject :: "env \<Rightarrow> frame \<Rightarrow> flow" where
  "set_subject e fr =
     (let fr1 = call C_X509_REQ_get_subject_name fr
      in case Option.bind (deref (certreq fr)) rq_subject of
           None \<Rightarrow>
             Goto_error (err_descr_to_stderr ''Error getting subject from cert request'' fr1)
         | Some name \<Rightarrow>
             (let fr2 = call C_X509_set_subject_name fr1
              in if lib_fails e C_X509_set_subject_name then
                   Goto_error
                     (err_descr_to_stderr ''Error setting subject name of certificate'' fr2)
                 else Continue (with_newcert (\<lambda>c. c\<lparr>subject := Some name\<rparr>) fr2)))"

text \<open>Lines 201 to 212. This is the first use of \<^verbatim>\<open>cacert\<close>, which is NULL when the
  CA certificate did not decode. \<^verbatim>\<open>X509_get_subject_name\<close> reads a field of the structure
  it is given; for a pointer that points to no certificate it has no answer (\<open>None\<close>).\<close>

definition X509_get_subject_name :: "x509 local \<Rightarrow> x509_name option option" where
  "X509_get_subject_name l = (case l of Ptr c \<Rightarrow> Some (subject c) | _ \<Rightarrow> None)"

definition set_issuer :: "env \<Rightarrow> frame \<Rightarrow> flow" where
  "set_issuer e fr =
     (let fr1 = call C_X509_get_subject_name fr
      in case X509_get_subject_name (cacert fr) of
           None \<Rightarrow> Fault fr1
         | Some None \<Rightarrow>
             Goto_error (err_descr_to_stderr ''Error getting subject from CA certificate'' fr1)
         | Some (Some name) \<Rightarrow>
             (let fr2 = call C_X509_set_issuer_name fr1
              in if lib_fails e C_X509_set_issuer_name then
                   Goto_error
                     (err_descr_to_stderr ''Error setting issuer name of certificate'' fr2)
                 else Continue (with_newcert (\<lambda>c. c\<lparr>issuer := Some name\<rparr>) fr2)))"

text \<open>Lines 217 to 221.\<close>

definition get_req_pubkey :: "env \<Rightarrow> frame \<Rightarrow> flow" where
  "get_req_pubkey e fr =
     (let fr1 = call C_X509_REQ_get_pubkey fr
      in case Option.bind (deref (certreq fr)) rq_pubkey of
           None \<Rightarrow>
             Goto_error
               (err_descr_to_stderr ''Error unpacking public key from request''
                  (fr1\<lparr>req_pubkey := Null\<rparr>))
         | Some k \<Rightarrow> Continue ((alloc O_req_pubkey fr1)\<lparr>req_pubkey := Ptr k\<rparr>))"

text \<open>Lines 226 to 229: the request is verified against the key it carries.\<close>

definition verify_result :: "env \<Rightarrow> frame \<Rightarrow> int" where
  "verify_result e fr =
     (case (deref (certreq fr), deref (req_pubkey fr)) of
        (Some r, Some k) \<Rightarrow> X509_REQ_verify e r k
      | _ \<Rightarrow> - 1)"

definition verify_req :: "env \<Rightarrow> frame \<Rightarrow> flow" where
  "verify_req e fr =
     (let fr1 = call C_X509_REQ_verify fr
      in if verify_result e fr \<noteq> 1 then
           Goto_error (err_descr_to_stderr ''Error verifying signature on request'' fr1)
         else Continue fr1)"

text \<open>Lines 234 to 237: the public key of the request replaces the one stored before.\<close>

definition set_pubkey_req :: "env \<Rightarrow> frame \<Rightarrow> flow" where
  "set_pubkey_req e fr =
     (let fr1 = call (C_X509_set_pubkey V_req_pubkey) fr
      in if lib_fails e (C_X509_set_pubkey V_req_pubkey) then
           Goto_error (err_descr_to_stderr ''Error setting public key of certificate'' fr1)
         else Continue (with_newcert (\<lambda>c. c\<lparr>pubkey := deref (req_pubkey fr)\<rparr>) fr1))"

text \<open>Lines 242 to 252: each \<^verbatim>\<open>X509_gmtime_adj\<close> reads the clock itself and stores
  the time it read plus its offset.\<close>

definition X509_gmtime_adj :: "env \<Rightarrow> frame \<Rightarrow> int \<Rightarrow> int \<times> frame" where
  "X509_gmtime_adj e fr adj = (time e (clock_reads fr) + adj, fr\<lparr>clock_reads := clock_reads fr + 1\<rparr>)"

definition set_notBefore :: "env \<Rightarrow> frame \<Rightarrow> flow" where
  "set_notBefore e fr =
     (case X509_gmtime_adj e (call C_X509_gmtime_adj_notBefore fr) 0 of
        (t, fr1) \<Rightarrow>
          if lib_fails e C_X509_gmtime_adj_notBefore then
            Goto_error (err_descr_to_stderr ''Error setting start time'' fr1)
          else Continue (with_newcert (\<lambda>c. c\<lparr>notBefore := Some t\<rparr>) fr1))"

definition set_notAfter :: "env \<Rightarrow> frame \<Rightarrow> flow" where
  "set_notAfter e fr =
     (let valid_secs = (31536000::int)
      in case X509_gmtime_adj e (call C_X509_gmtime_adj_notAfter fr) valid_secs of
           (t, fr1) \<Rightarrow>
             if lib_fails e C_X509_gmtime_adj_notAfter then
               Goto_error (err_descr_to_stderr ''Error setting expiration time'' fr1)
             else Continue (with_newcert (\<lambda>c. c\<lparr>notAfter := Some t\<rparr>) fr1))"

text \<open>Lines 257 to 270: an extension context is set up and left unused; the certificate
  is signed with the key of the CA and SHA-256.\<close>

definition sign_cert :: "env \<Rightarrow> frame \<Rightarrow> flow" where
  "sign_cert e fr =
     (let digest = EVP_sha256;
          fr1 = call C_X509_sign (call C_EVP_sha256 (call C_X509V3_set_ctx fr))
      in if lib_fails e C_X509_sign then
           Goto_error (err_descr_to_stderr ''Error signing the new certificate'' fr1)
         else
           Continue
             (with_newcert
                (\<lambda>c. c\<lparr>signature :=
                   map_option (\<lambda>k. (digest, X509_sign e c k digest)) (deref (pKey fr))\<rparr>) fr1))"

text \<open>Lines 275 to 279: the certificate is written in PEM form to a fresh memory BIO.\<close>

definition write_cert :: "env \<Rightarrow> frame \<Rightarrow> flow" where
  "write_cert e fr =
     (let fr1 = call C_PEM_write_bio_X509
                  ((alloc O_bptr (alloc O_outbio (call C_BIO_new_mem fr)))\<lparr>outbio := Ptr []\<rparr>)
      in if lib_fails e C_PEM_write_bio_X509 then
           Goto_error (err_descr_to_stderr ''Error printing the signed certificate'' fr1)
         else
           Continue
             (fr1\<lparr>outbio :=
                (case deref (newcert fr) of
                   Some c \<Rightarrow> Ptr (PEM_write_bio_X509 e c)
                 | None \<Rightarrow> Ptr [])\<rparr>))"

text \<open>Lines 281 to 287: \<^verbatim>\<open>bptr\<close> is the buffer of \<^verbatim>\<open>outbio\<close> itself; one byte more
  than its length is pushed, the buffer is freed, and \<^verbatim>\<open>rc\<close> becomes 1.\<close>

definition push_result :: "env \<Rightarrow> frame \<Rightarrow> flow" where
  "push_result e fr =
     (let bptr = (case deref (outbio fr) of Some b \<Rightarrow> b | None \<Rightarrow> []);
          fr1 = call C_lua_pushlstring
                  (lua_pushlstring (read_bytes e bptr (length bptr + 1))
                     (call C_BIO_get_mem_ptr fr));
          fr2 = free O_bptr (call C_BUF_MEM_free fr1)
      in Continue (fr2\<lparr>rc := 1\<rparr>))"

section \<open>The cleanup block and the whole function\<close>

text \<open>A release function may be handed an object only if the object, and everything that
  is released with it, was acquired by this invocation and has not been released yet.\<close>

definition valid_free :: "obj \<Rightarrow> frame \<Rightarrow> bool" where
  "valid_free ob fr =
     list_all (\<lambda>x. x \<in> set (allocs fr) \<and> x \<notin> set (frees fr)) (ob # owned ob)"

text \<open>Each test \<^verbatim>\<open>if (p != NULL) release(p)\<close> of lines 289 to 324. A variable whose
  declaration was jumped over is tested all the same: if it happens to hold NULL nothing
  is done, otherwise its content is handed to the release function. The result is the
  frame after the release (\<open>Inr\<close>), or the frame in which the invocation dies (\<open>Inl\<close>),
  with the offending release entered in the ledger.\<close>

definition release :: "env \<Rightarrow> var \<Rightarrow> obj \<Rightarrow> 'a local \<Rightarrow> frame \<Rightarrow> frame + frame" where
  "release e v ob l fr =
     (case l of
        Indeterminate \<Rightarrow> (if stale e v then Inl (free (O_stale v) fr) else Inr fr)
      | Null \<Rightarrow> Inr fr
      | Ptr x \<Rightarrow> (if valid_free ob fr then Inr (free ob fr) else Inl (free ob fr)))"

fun run_releases :: "(frame \<Rightarrow> frame + frame) list \<Rightarrow> frame \<Rightarrow> frame + frame" where
  "run_releases [] fr = Inr fr"
| "run_releases (r # rs) fr =
     (case r fr of Inl dead \<Rightarrow> Inl dead | Inr fr' \<Rightarrow> run_releases rs fr')"

definition cleanup_block :: "env \<Rightarrow> (frame \<Rightarrow> frame + frame) list" where
  "cleanup_block e =
     [\<lambda>fr. release e V_pkeybio O_pkeybio (pkeybio fr) fr,
      \<lambda>fr. release e V_pKey O_pKey (pKey fr) fr,
      \<lambda>fr. release e V_cacertbio O_cacertbio (cacertbio fr) fr,
      \<lambda>fr. release e V_cacert O_cacert (cacert fr) fr,
      \<lambda>fr. release e V_req_pubkey O_req_pubkey (req_pubkey fr) fr,
      \<lambda>fr. release e V_reqbio O_reqbio (reqbio fr) fr,
      \<lambda>fr. release e V_certreq O_certreq (certreq fr) fr,
      \<lambda>fr. release e V_newcert O_newcert (newcert fr) fr,
      \<lambda>fr. release e V_outbio O_outbio (outbio fr) fr]"

definition cleanup :: "env \<Rightarrow> frame \<Rightarrow> frame + frame" where
  "cleanup e fr = run_releases (cleanup_block e) fr"

text \<open>After the cleanup block comes \<^verbatim>\<open>return rc\<close>, unless the invocation died in it.\<close>

definition finish :: "frame + frame \<Rightarrow> result" where
  "finish x = (case x of Inl dead \<Rightarrow> Dies dead | Inr fr \<Rightarrow> Return fr)"

definition settled :: "frame + frame \<Rightarrow> frame" where
  "settled x = (case x of Inl dead \<Rightarrow> dead | Inr fr \<Rightarrow> fr)"

fun run :: "(frame \<Rightarrow> flow) list \<Rightarrow> frame \<Rightarrow> flow" where
  "run [] fr = Continue fr"
| "run (s # ss) fr = (case s fr of Continue fr' \<Rightarrow> run ss fr' | r \<Rightarrow> r)"

definition body :: "env \<Rightarrow> lua_value list \<Rightarrow> (frame \<Rightarrow> flow) list" where
  "body e L =
     [check_argc L, arg_pkey e L, arg_crt e L, arg_csr e L,
      load_pkey e, load_cacert e, load_csr e,
      new_cert e, set_version e, set_pubkey_pKey e, set_serial e, set_subject e, set_issuer e,
      get_req_pubkey e, verify_req e, set_pubkey_req e, set_notBefore e, set_notAfter e,
      sign_cert e, write_cert e, push_result e]"

definition csr_crt :: "env \<Rightarrow> lua_value list \<Rightarrow> result" where
  "csr_crt e L =
     (case run (body e L) frame0 of
        Continue fr \<Rightarrow> finish (cleanup e fr)
      | Goto_error fr \<Rightarrow> finish (cleanup e fr)
      | Lua_error fr \<Rightarrow> Raise fr
      | Fault fr \<Rightarrow> Dies fr)"

text \<open>The values that \<^verbatim>\<open>return rc\<close> hands to the Lua caller: the topmost \<^verbatim>\<open>rc\<close> values
  of the stack.\<close>

definition returned_values :: "lua_value list \<Rightarrow> frame \<Rightarrow> lua_value list" where
  "returned_values L fr =
     (let st = L @ map LString (pushed fr) in drop (length st - rc fr) st)"


section \<open>Observations on a finished invocation\<close>

definition final_frame :: "result \<Rightarrow> frame" where
  "final_frame r = (case r of Return fr \<Rightarrow> fr | Raise fr \<Rightarrow> fr | Dies fr \<Rightarrow> fr)"

text \<open>The certificate that a successful invocation, one that has pushed its result and set
  \<^verbatim>\<open>rc\<close> to 1, has serialised for its caller: the one \<^verbatim>\<open>newcert\<close> pointed to when it was
  written to the output BIO.\<close>

definition issued :: "result \<Rightarrow> x509 option" where
  "issued r =
     (case r of
        Raise fr \<Rightarrow> None
      | _ \<Rightarrow> (if rc (final_frame r) = 1 then deref (newcert (final_frame r)) else None))"

text \<open>A frame in which the caller has been given nothing yet.\<close>

definition unanswered :: "frame \<Rightarrow> bool" where
  "unanswered fr = (rc fr = 0 \<and> pushed fr = [])"

text \<open>The library calls of the body in the order of the source text, lines 126 to 284.\<close>

definition program_order :: "libcall list" where
  "program_order =
     [C_BIO_new_mem_buf V_pkeybio, C_PEM_read_bio_RSAPrivateKey, C_EVP_PKEY_new,
      C_EVP_PKEY_assign_RSA, C_BIO_new_mem_buf V_cacertbio, C_PEM_read_bio_X509,
      C_BIO_new_mem_buf V_reqbio, C_PEM_read_bio_X509_REQ, C_X509_new, C_X509_set_version,
      C_X509_set_pubkey V_pKey, C_ASN1_INTEGER_new, C_ASN1_INTEGER_set,
      C_X509_set_serialNumber, C_X509_REQ_get_subject_name, C_X509_set_subject_name,
      C_X509_get_subject_name, C_X509_set_issuer_name, C_X509_REQ_get_pubkey,
      C_X509_REQ_verify, C_X509_set_pubkey V_req_pubkey, C_X509_gmtime_adj_notBefore,
      C_X509_gmtime_adj_notAfter, C_X509V3_set_ctx, C_EVP_sha256, C_X509_sign,
      C_BIO_new_mem, C_PEM_write_bio_X509, C_BIO_get_mem_ptr, C_lua_pushlstring,
      C_BUF_MEM_free]"

text \<open>\<open>precedes a b xs\<close>: if \<open>b\<close> occurs in the trace \<open>xs\<close>, then \<open>a\<close> occurs before
  its first occurrence.\<close>

definition precedes :: "'a \<Rightarrow> 'a \<Rightarrow> 'a list \<Rightarrow> bool" where
  "precedes a b xs = (b \<in> set xs \<longrightarrow> a \<in> set (takeWhile (\<lambda>x. x \<noteq> b) xs))"

text \<open>The ownership ledger of a frame: what was acquired and never released, and whether
  every acquired object was released exactly once and nothing else was released.\<close>

definition leaked :: "frame \<Rightarrow> obj list" where
  "leaked fr = filter (\<lambda>ob. ob \<notin> set (frees fr)) (allocs fr)"

definition released_exactly_once :: "frame \<Rightarrow> bool" where
  "released_exactly_once fr =
     (list_all (\<lambda>ob. count_list (frees fr) ob = 1) (allocs fr) \<and>
      list_all (\<lambda>ob. ob \<in> set (allocs fr)) (frees fr))"

text \<open>
  The error taxonomy of the specification (its section 7). \<^verbatim>\<open>csr_crt\<close> itself reports a
  failure only by its diagnostic line and the return value 0; the kind of a failure is
  read off the diagnostic.
\<close>

datatype error_kind =
  DecodeError | SignatureVerificationError | BuildError | SigningError | EncodingError

definition spec_error_kind :: "string \<Rightarrow> error_kind option" where
  "spec_error_kind msg =
     (if msg \<in> set [''pkey length should greater then zero!'',
                     ''crt length should greater then zero!'',
                     ''csr length should greater then zero!'',
                     ''Failed to create key bio'',
                     ''Error can't read X509 request data into memory'']
      then Some DecodeError
      else if msg \<in> set [''Error unpacking public key from request'',
                          ''Error verifying signature on request'']
      then Some SignatureVerificationError
      else if msg \<in> set [''Error creating new X509 object'',
                          ''Error setting certificate version'',
                          ''X509_set_pubkey'',
                          ''Error setting serial number of the certificate'',
                          ''Error getting subject from cert request'',
                          ''Error setting subject name of certificate'',
                          ''Error getting subject from CA certificate'',
                          ''Error setting issuer name of certificate'',
                          ''Error setting public key of certificate'',
                          ''Error setting start time'',
                          ''Error setting expiration time'']
      then Some BuildError
      else if msg = ''Error signing the new certificate'' then Some SigningError
      else if msg = ''Error printing the signed certificate'' then Some EncodingError
      else None)"

section \<open>A concrete environment\<close>

text \<open>
  A small world in which the definitions can be evaluated: one private key blob that
  the fixed password opens, one CA certificate, one request that verifies and one whose
  signature was altered. No library call fails, and the clock stands still.
\<close>

definition demo_ca :: x509 where
  "demo_ca = \<lparr>version = Some 2, serialNumber = Some 1, subject = Some ''CN=Demo CA'',
     issuer = Some ''CN=Demo CA'', pubkey = Some ''ca-key'', notBefore = Some 0,
     notAfter = Some 100, signature = Some (EVP_sha256, ''self'')\<rparr>"

definition demo_req :: x509_req where
  "demo_req = \<lparr>rq_subject = Some ''CN=applicant'', rq_pubkey = Some ''applicant-key'',
     rq_signature = ''by applicant-key''\<rparr>"

definition tampered_req :: x509_req where
  "tampered_req = demo_req\<lparr>rq_signature := ''bz applicant-key''\<rparr>"

definition demo_env :: env where
  "demo_env = \<lparr>
     PEM_read_bio_RSAPrivateKey =
       (\<lambda>blob password. if blob = ''KEY'' \<and> password = ''replace_me'' then Some ''ca-key'' else None),
     PEM_read_bio_X509 = (\<lambda>blob. if blob = ''CACERT'' then Some demo_ca else None),
     PEM_read_bio_X509_REQ =
       (\<lambda>blob. if blob = ''CSR'' then Some demo_req
                else if blob = ''CSR*'' then Some tampered_req else None),
     X509_REQ_verify = (\<lambda>r k. if rq_signature r = ''by '' @ k then 1 else 0),
     X509_sign = (\<lambda>c k md. ''signed with '' @ k),
     PEM_write_bio_X509 = (\<lambda>c. ''-----BEGIN CERTIFICATE-----''),
     lib_fails = (\<lambda>c. False),
     time = (\<lambda>n. 1700000000),
     lua_tolstring_number = (\<lambda>n. ''0''),
     past_end = (\<lambda>i. CHR ''?''),
     stale = (\<lambda>v. False)\<rparr>"

definition demo_args :: "lua_value list" where
  "demo_args = [LString ''KEY'', LString ''CACERT'', LString ''CSR'']"


text \<open>The same world with a clock that advances by one second between two readings.\<close>

definition ticking_env :: env where
  "ticking_env = demo_env\<lparr>time := (\<lambda>n. 1700000000 + int n)\<rparr>"

text \<open>The same world in which every pointer variable that was never assigned holds
  something other than NULL.\<close>

definition stale_env :: env where
  "stale_env = demo_env\<lparr>stale := (\<lambda>v. True)\<rparr>"

text \<open>The same arguments with a CA blob that is no certificate, and with a request whose
  signature was altered.\<close>

definition bad_ca_args :: "lua_value list" where
  "bad_ca_args = [LString ''KEY'', LString ''not a certificate'', LString ''CSR'']"

definition tampered_args :: "lua_value list" where
  "tampered_args = [LString ''KEY'', LString ''CACERT'', LString ''CSR*'']"

text \<open>The certificate that the demo world issues for the demo arguments.\<close>

definition demo_cert :: x509 where
  "demo_cert = \<lparr>version = Some 2, serialNumber = Some 0, subject = Some ''CN=applicant'',
     issuer = Some ''CN=Demo CA'', pubkey = Some ''applicant-key'',
     notBefore = Some 1700000000, notAfter = Some 1731536000,
     signature = Some (EVP_sha256, ''signed with ca-key'')\<rparr>"

section \<open>Auxiliary facts\<close>

lemmas step_defs =
  check_argc_def arg_pkey_def arg_crt_def arg_csr_def load_pkey_def load_cacert_def
  load_csr_def new_cert_def set_version_def set_pubkey_pKey_def set_serial_def
  set_subject_def set_issuer_def get_req_pubkey_def verify_req_def set_pubkey_req_def
  set_notBefore_def set_notAfter_def sign_cert_def write_cert_def push_result_def

lemmas aux_defs =
  lua_gettop_def lua_isstring_def luaL_checklstring_def lua_pushlstring_def
  fprintf_stderr_def err_descr_to_stderr_def call_def alloc_def free_def with_newcert_def
  deref_def X509_get_subject_name_def verify_result_def X509_gmtime_adj_def X509_new_def
  frame0_def

lemmas demo_defs =
  demo_env_def demo_args_def demo_ca_def demo_req_def tampered_req_def ticking_env_def
  stale_env_def bad_ca_args_def tampered_args_def

lemmas cleanup_defs = cleanup_def cleanup_block_def release_def valid_free_def finish_def

lemmas run_defs = csr_crt_def body_def step_defs aux_defs Let_def

text \<open>Where an invocation ends, and what it has issued by then.\<close>

lemma final_frame_simps [simp]:
  "final_frame (Return fr) = fr"
  "final_frame (Raise fr) = fr"
  "final_frame (Dies fr) = fr"
  by (simp_all add: final_frame_def)

lemma issued_simps [simp]:
  "issued (Raise fr) = None"
  "issued (Dies fr) = (if rc fr = 1 then deref (newcert fr) else None)"
  "issued (Return fr) = (if rc fr = 1 then deref (newcert fr) else None)"
  by (simp_all add: issued_def)

text \<open>A release, and so the whole cleanup block, touches nothing but the list of released
  objects, whether the invocation survives it or not.\<close>

lemma release_fields [simp]:
  "rc (settled (release e v ob l fr)) = rc fr"
  "calls (settled (release e v ob l fr)) = calls fr"
  "stderr (settled (release e v ob l fr)) = stderr fr"
  "pushed (settled (release e v ob l fr)) = pushed fr"
  "allocs (settled (release e v ob l fr)) = allocs fr"
  "newcert (settled (release e v ob l fr)) = newcert fr"
  "certreq (settled (release e v ob l fr)) = certreq fr"
  "req_pubkey (settled (release e v ob l fr)) = req_pubkey fr"
  "cacert (settled (release e v ob l fr)) = cacert fr"
  "outbio (settled (release e v ob l fr)) = outbio fr"
  by (simp_all add: release_def free_def settled_def split: local.split)

lemma run_releases_keeps:
  assumes "\<And>r fr. r \<in> set rs \<Longrightarrow> f (settled (r fr)) = f fr"
  shows "f (settled (run_releases rs fr)) = f fr"
  using assms
proof (induction rs arbitrary: fr)
  case Nil
  then show ?case by (simp add: settled_def)
next
  case (Cons r rs)
  have here: "f (settled (r fr)) = f fr"
    using Cons.prems by simp
  show ?case
  proof (cases "r fr")
    case (Inl dead)
    with here show ?thesis by (simp add: settled_def)
  next
    case (Inr fr')
    with here have "f fr' = f fr" by (simp add: settled_def)
    moreover have "f (settled (run_releases rs fr')) = f fr'"
      using Cons.IH Cons.prems by simp
    ultimately show ?thesis using Inr by simp
  qed
qed

lemma cleanup_fields [simp]:
  "rc (settled (cleanup e fr)) = rc fr"
  "calls (settled (cleanup e fr)) = calls fr"
  "stderr (settled (cleanup e fr)) = stderr fr"
  "pushed (settled (cleanup e fr)) = pushed fr"
  "allocs (settled (cleanup e fr)) = allocs fr"
  "newcert (settled (cleanup e fr)) = newcert fr"
  "certreq (settled (cleanup e fr)) = certreq fr"
  "req_pubkey (settled (cleanup e fr)) = req_pubkey fr"
  "cacert (settled (cleanup e fr)) = cacert fr"
  "outbio (settled (cleanup e fr)) = outbio fr"
  unfolding cleanup_def
  by (rule run_releases_keeps; auto simp: cleanup_block_def)+

lemma finish_frame [simp]:
  "final_frame (finish x) = settled x"
  "issued (finish x) = (if rc (settled x) = 1 then deref (newcert (settled x)) else None)"
  by (simp_all add: finish_def settled_def final_frame_def issued_def split: sum.split)

text \<open>Sequencing of statement blocks and of releases.\<close>

lemma run_append:
  "run (xs @ ys) fr =
     (case run xs fr of
        Continue fr' \<Rightarrow> run ys fr'
      | Goto_error fr' \<Rightarrow> Goto_error fr'
      | Lua_error fr' \<Rightarrow> Lua_error fr'
      | Fault fr' \<Rightarrow> Fault fr')"
  by (induction xs arbitrary: fr) (auto split: flow.splits)

lemma run_releases_append:
  "run_releases (xs @ ys) fr =
     (case run_releases xs fr of Inl dead \<Rightarrow> Inl dead | Inr fr' \<Rightarrow> run_releases ys fr')"
  by (induction xs arbitrary: fr) (auto split: sum.splits)

lemma run_releases_invariant:
  assumes "run_releases rs fr = Inr fr'"
    and "\<And>r a b. r \<in> set rs \<Longrightarrow> P a \<Longrightarrow> r a = Inr b \<Longrightarrow> P b"
    and "P fr"
  shows "P fr'"
  using assms
proof (induction rs arbitrary: fr)
  case Nil
  then show ?case by simp
next
  case (Cons r rs)
  from Cons.prems(1) obtain mid where mid: "r fr = Inr mid" "run_releases rs mid = Inr fr'"
    by (auto split: sum.splits)
  have mid_ok: "P mid"
    using Cons.prems(2) [of r fr mid] Cons.prems(3) mid(1) by simp
  show ?case
  proof (rule Cons.IH [OF mid(2)])
    fix r' a b
    assume "r' \<in> set rs" and "P a" and "r' a = Inr b"
    then show "P b"
      using Cons.prems(2) [of r' a b] by simp
  next
    show "P mid" by (fact mid_ok)
  qed
qed

text \<open>An invariant that every block keeps, or hands over to the error exit and to the
  undefined exit in the form \<open>Q\<close>, holds after any sequence of blocks; no block raising
  means no sequence raises.\<close>

lemma run_invariant:
  assumes step: "\<And>s fr. s \<in> set ss \<Longrightarrow> I fr \<Longrightarrow>
            (case s fr of Continue fr' \<Rightarrow> I fr' | Goto_error fr' \<Rightarrow> Q fr'
             | Lua_error fr' \<Rightarrow> False | Fault fr' \<Rightarrow> Q fr')"
    and init: "I fr"
  shows "case run ss fr of Continue fr' \<Rightarrow> I fr' | Goto_error fr' \<Rightarrow> Q fr'
         | Lua_error fr' \<Rightarrow> False | Fault fr' \<Rightarrow> Q fr'"
  using assms
proof (induction ss arbitrary: fr)
  case Nil
  then show ?case by simp
next
  case (Cons s ss)
  have here: "case s fr of Continue fr' \<Rightarrow> I fr' | Goto_error fr' \<Rightarrow> Q fr'
              | Lua_error fr' \<Rightarrow> False | Fault fr' \<Rightarrow> Q fr'"
    using Cons.prems by simp
  show ?case
  proof (cases "s fr")
    case (Continue fr')
    with here have "I fr'" by simp
    then have "case run ss fr' of Continue fr'' \<Rightarrow> I fr'' | Goto_error fr'' \<Rightarrow> Q fr''
               | Lua_error fr'' \<Rightarrow> False | Fault fr'' \<Rightarrow> Q fr''"
      using Cons.IH Cons.prems(1) by simp
    with Continue show ?thesis by simp
  next
    case (Goto_error fr')
    with here show ?thesis by simp
  next
    case (Lua_error fr')
    with here show ?thesis by simp
  next
    case (Fault fr')
    with here show ?thesis by simp
  qed
qed

text \<open>Reading one byte more than the content yields the content and the byte behind it.\<close>

lemma read_bytes_one_past:
  "read_bytes e content (Suc (length content)) = content @ [past_end e 0]"
proof -
  have "map (\<lambda>i. if i < length content then content ! i else past_end e (i - length content))
          [0..<length content] = content"
    by (rule nth_equalityI) simp_all
  then show ?thesis by (simp add: read_bytes_def)
qed

text \<open>A trace that is an initial segment of another inherits its order of first
  occurrences.\<close>

lemma precedes_prefix:
  assumes "prefix xs ys" and "precedes a b ys"
  shows "precedes a b xs"
proof -
  from assms(1) obtain zs where ys: "ys = xs @ zs"
    by (auto simp: prefix_def)
  show ?thesis
    unfolding precedes_def
  proof
    assume b: "b \<in> set xs"
    then have "takeWhile (\<lambda>x. x \<noteq> b) ys = takeWhile (\<lambda>x. x \<noteq> b) xs"
      unfolding ys by (intro takeWhile_append1 [where x = b]) auto
    moreover from b assms(2) have "a \<in> set (takeWhile (\<lambda>x. x \<noteq> b) ys)"
      by (simp add: precedes_def ys)
    ultimately show "a \<in> set (takeWhile (\<lambda>x. x \<noteq> b) xs)" by simp
  qed
qed


text \<open>Whatever the environment and the arguments, the calls made are an initial segment
  of the calls of the source text: every exit leaves the straight line for good.\<close>

lemma calls_in_program_order:
  "prefix (calls (final_frame (csr_crt e L))) program_order"
  unfolding csr_crt_def body_def
  by (simp add: step_defs aux_defs Let_def program_order_def
        split: option.split lua_value.split local.split)

text \<open>Either the request verified, or the invocation stopped at the verification call
  (the twentieth of the source text) or before it.\<close>

lemma verified_or_stopped:
  "verify_result e (final_frame (csr_crt e L)) = 1 \<or>
   prefix (calls (final_frame (csr_crt e L))) (take 20 program_order)"
  unfolding csr_crt_def body_def
  by (simp add: step_defs aux_defs Let_def program_order_def
        split: option.split lua_value.split local.split)

lemma source_order:
  "\<forall>d \<in> set [C_PEM_read_bio_RSAPrivateKey, C_PEM_read_bio_X509, C_PEM_read_bio_X509_REQ,
               C_X509_set_version, C_X509_set_pubkey V_pKey, C_X509_set_serialNumber,
               C_X509_set_subject_name, C_X509_set_issuer_name].
      precedes d C_X509_REQ_verify program_order"
  "\<forall>a \<in> set [C_X509_set_pubkey V_req_pubkey, C_X509_gmtime_adj_notBefore,
               C_X509_gmtime_adj_notAfter, C_X509_sign, C_PEM_write_bio_X509, C_lua_pushlstring].
      precedes C_X509_REQ_verify a program_order \<and> a \<notin> set (take 20 program_order)"
  by (simp_all add: precedes_def program_order_def)

text \<open>The fields of a certificate that reaches the Lua stack.\<close>

lemma issued_fields:
  "case issued (csr_crt e L) of
     None \<Rightarrow> True
   | Some cert \<Rightarrow>
       version cert = Some 2 \<and> serialNumber cert = Some 0 \<and>
       notBefore cert = Some (time e 0) \<and> notAfter cert = Some (time e 1 + 31536000)"
  unfolding csr_crt_def body_def
  by (simp add: step_defs aux_defs Let_def
       split: option.split lua_value.split local.split)

text \<open>The frame of an invocation that has set \<^verbatim>\<open>rc\<close> to 1.\<close>

lemma success_shape:
  "rc (final_frame (csr_crt e L)) = 1 \<longrightarrow>
     (\<exists>cert. newcert (final_frame (csr_crt e L)) = Ptr cert \<and>
        outbio (final_frame (csr_crt e L)) = Ptr (PEM_write_bio_X509 e cert) \<and>
        pushed (final_frame (csr_crt e L)) =
          [read_bytes e (PEM_write_bio_X509 e cert) (length (PEM_write_bio_X509 e cert) + 1)])"
  unfolding csr_crt_def body_def
  by (simp add: step_defs aux_defs Let_def
       split: option.split lua_value.split local.split)

text \<open>How the body ends, before the cleanup block is entered.\<close>

lemma body_outcome:
  "case run (body e L) frame0 of
     Continue fr \<Rightarrow> rc fr = 1 \<and> O_bptr \<in> set (frees fr) \<and> (\<exists>b. outbio fr = Ptr b)
   | Goto_error fr \<Rightarrow> rc fr = 0 \<and> pushed fr = []
   | Lua_error fr \<Rightarrow> rc fr = 0 \<and> pushed fr = []
   | Fault fr \<Rightarrow> rc fr = 0 \<and> pushed fr = []"
  unfolding body_def
  by (simp add: step_defs aux_defs Let_def
       split: option.split lua_value.split local.split)

lemma final_rc:
  "rc (final_frame (csr_crt e L)) = 0 \<and> pushed (final_frame (csr_crt e L)) = []
     \<or> rc (final_frame (csr_crt e L)) = 1"
  using body_outcome [of e L]
  by (cases "run (body e L) frame0") (simp_all add: csr_crt_def)

section \<open>The cleanup block after a success\<close>

text \<open>Once \<^verbatim>\<open>BUF_MEM_free\<close> has released the buffer of the output BIO, the cleanup block
  cannot be survived: \<^verbatim>\<open>BIO_free_all\<close> releases the same buffer again, unless an earlier
  release has already gone wrong.\<close>

lemma release_keeps_buffer_state:
  assumes "release e v ob l a = Inr b"
    and "O_bptr \<in> set (frees a) \<and> outbio a = Ptr x"
  shows "O_bptr \<in> set (frees b) \<and> outbio b = Ptr x"
  using assms
  by (auto simp: release_def free_def split: local.splits if_splits)

lemma cleanup_after_BUF_MEM_free:
  assumes freed: "O_bptr \<in> set (frees fr)" and bio: "outbio fr = Ptr x"
  shows "\<exists>dead. cleanup e fr = Inl dead"
proof -
  let ?first = "butlast (cleanup_block e)"
  let ?last = "\<lambda>fr. release e V_outbio O_outbio (outbio fr) fr"
  have parts: "cleanup_block e = ?first @ [?last]"
    by (simp add: cleanup_block_def)
  show ?thesis
  proof (cases "run_releases ?first fr")
    case (Inl dead)
    then show ?thesis
      unfolding cleanup_def by (subst parts, subst run_releases_append) simp
  next
    case (Inr fr')
    have "O_bptr \<in> set (frees fr') \<and> outbio fr' = Ptr x"
    proof (rule run_releases_invariant [OF Inr])
      show "O_bptr \<in> set (frees fr) \<and> outbio fr = Ptr x"
        using freed bio by simp
    next
      fix r a b
      assume "r \<in> set ?first" and "O_bptr \<in> set (frees a) \<and> outbio a = Ptr x"
        and "r a = Inr b"
      then show "O_bptr \<in> set (frees b) \<and> outbio b = Ptr x"
        by (auto simp: cleanup_block_def dest: release_keeps_buffer_state)
    qed
    then have "\<exists>dead. ?last fr' = Inl dead"
      by (simp add: release_def valid_free_def)
    with Inr show ?thesis
      unfolding cleanup_def by (subst parts, subst run_releases_append) auto
  qed
qed

lemma success_dies_in_cleanup:
  assumes "rc (final_frame (csr_crt e L)) = 1"
  shows "csr_crt e L = Dies (final_frame (csr_crt e L))"
proof (cases "run (body e L) frame0")
  case (Continue fr)
  with body_outcome [of e L] obtain x where "O_bptr \<in> set (frees fr)" "outbio fr = Ptr x"
    by auto
  then obtain dead where "cleanup e fr = Inl dead"
    using cleanup_after_BUF_MEM_free by blast
  with Continue show ?thesis
    by (simp add: csr_crt_def finish_def)
next
  case (Goto_error fr)
  with body_outcome [of e L] have "rc fr = 0" by simp
  with Goto_error assms show ?thesis
    by (simp add: csr_crt_def)
next
  case (Lua_error fr)
  with body_outcome [of e L] have "rc fr = 0" by simp
  with Lua_error assms show ?thesis
    by (simp add: csr_crt_def)
next
  case (Fault fr)
  then show ?thesis by (simp add: csr_crt_def)
qed

lemma returns_only_zero:
  assumes "csr_crt e L = Return fr"
  shows "rc fr = 0 \<and> returned_values L fr = []"
proof -
  have "rc fr \<noteq> 1"
    using success_dies_in_cleanup [of e L] assms by auto
  moreover have "rc fr = 0 \<and> pushed fr = [] \<or> rc fr = 1"
    using final_rc [of e L] assms by simp
  ultimately show ?thesis
    by (auto simp: returned_values_def)
qed

section \<open>C1: a valid triple yields the right certificate, and then the cleanup block\<close>

text \<open>For a valid triple the body builds and pushes what C1 describes; the invocation then
  dies in the cleanup block, where the buffer of the output BIO is released a second time.\<close>

lemma valid_triple_builds_certificate:
  assumes "L = LString k # LString c # LString r # rest"
    and "k \<noteq> []" and "c \<noteq> []" and "r \<noteq> []"
    and "PEM_read_bio_RSAPrivateKey e k ''replace_me'' = Some key"
    and "PEM_read_bio_X509 e c = Some ca" and "subject ca = Some ca_name"
    and "PEM_read_bio_X509_REQ e r = Some req"
    and "rq_subject req = Some subj" and "rq_pubkey req = Some pk"
    and "X509_REQ_verify e req pk = 1"
    and "\<forall>x. \<not> lib_fails e x"
  shows "\<exists>fr cert. csr_crt e L = Dies fr \<and> rc fr = 1
           \<and> issued (csr_crt e L) = Some cert
           \<and> issuer cert = subject ca
           \<and> subject cert = rq_subject req
           \<and> pubkey cert = rq_pubkey req
           \<and> pushed fr =
               [read_bytes e (PEM_write_bio_X509 e cert)
                  (length (PEM_write_bio_X509 e cert) + 1)]
           \<and> count_list (frees fr) O_bptr = 2"
  using assms
  by (simp add: run_defs cleanup_defs)

text \<open>
  Claim C1 does not hold of the code. In the demo world the valid triple makes
  \<^verbatim>\<open>csr_crt\<close> build a certificate whose issuer is the subject of the CA certificate and
  whose subject and public key are those of the request, push its PEM text and set
  \<^verbatim>\<open>rc\<close> to 1; but \<^verbatim>\<open>BUF_MEM_free\<close> at line 284 and \<^verbatim>\<open>BIO_free_all\<close> at line 323
  release the same buffer, so the invocation does not return to its caller.
\<close>

theorem C1_valid_triple_dies_in_cleanup:
  "csr_crt demo_env demo_args = Dies (final_frame (csr_crt demo_env demo_args))
     \<and> rc (final_frame (csr_crt demo_env demo_args)) = 1
     \<and> issued (csr_crt demo_env demo_args) = Some demo_cert
     \<and> issuer demo_cert = subject demo_ca
     \<and> subject demo_cert = rq_subject demo_req
     \<and> pubkey demo_cert = rq_pubkey demo_req
     \<and> count_list (frees (final_frame (csr_crt demo_env demo_args))) O_bptr = 2"
  by (simp add: run_defs demo_defs cleanup_defs demo_cert_def)

section \<open>C2: a request that does not verify is rejected\<close>

text \<open>
  Claim C2. Let the three arguments be non-empty strings, let the key, the CA certificate
  and the request decode as in C1, and let no library call that precedes the verification
  fail. If the request does not verify against the public key it carries, then at the end
  of the invocation \<^verbatim>\<open>rc\<close> is 0 and nothing has been pushed for the caller; the only
  diagnostic is the one of the verification, which the taxonomy of the specification
  counts as a signature verification error; nothing is signed and nothing is serialised.
  The invocation returns 0 to Lua, provided that \<^verbatim>\<open>outbio\<close>, the one pointer variable
  whose declaration this exit jumps over, happens to hold NULL; otherwise it dies in the
  cleanup block, still without output.
\<close>

theorem C2_unverified_request_rejected:
  assumes "L = LString k # LString c # LString r # rest"
    and "k \<noteq> []" and "c \<noteq> []" and "r \<noteq> []"
    and "PEM_read_bio_RSAPrivateKey e k ''replace_me'' = Some key"
    and "PEM_read_bio_X509 e c = Some ca" and "subject ca = Some ca_name"
    and "PEM_read_bio_X509_REQ e r = Some req"
    and "rq_subject req = Some subj" and "rq_pubkey req = Some pk"
    and "X509_REQ_verify e req pk \<noteq> 1"
    and "\<forall>x \<in> set (takeWhile (\<lambda>x. x \<noteq> C_X509_REQ_verify) program_order). \<not> lib_fails e x"
  shows "\<exists>fr. final_frame (csr_crt e L) = fr
           \<and> csr_crt e L = (if stale e V_outbio then Dies fr else Return fr)
           \<and> rc fr = 0
           \<and> returned_values L fr = []
           \<and> pushed fr = []
           \<and> issued (csr_crt e L) = None
           \<and> stderr fr = [''Error verifying signature on request'']
           \<and> map spec_error_kind (stderr fr) = [Some SignatureVerificationError]
           \<and> C_X509_sign \<notin> set (calls fr)
           \<and> C_PEM_write_bio_X509 \<notin> set (calls fr)"
  using assms
  by (simp add: run_defs cleanup_defs returned_values_def program_order_def spec_error_kind_def)

theorem C2_witness:
  "X509_REQ_verify demo_env tampered_req ''applicant-key'' \<noteq> 1
     \<and> \<not> stale demo_env V_outbio
     \<and> csr_crt demo_env tampered_args = Return (final_frame (csr_crt demo_env tampered_args))
     \<and> rc (final_frame (csr_crt demo_env tampered_args)) = 0
     \<and> pushed (final_frame (csr_crt demo_env tampered_args)) = []
     \<and> stderr (final_frame (csr_crt demo_env tampered_args)) =
         [''Error verifying signature on request'']"
  using C2_unverified_request_rejected
    [of tampered_args "''KEY''" "''CACERT''" "''CSR*''" "[]" demo_env "''ca-key''" demo_ca
        "''CN=Demo CA''" tampered_req "''CN=applicant''" "''applicant-key''"]
  by (auto simp: demo_defs program_order_def)

section \<open>C3: where the verification stands among the other steps\<close>

text \<open>
  Claim C3 as stated, that the request is verified before any field of the new
  certificate is assigned, fails: in the demo invocation \<^verbatim>\<open>X509_set_version\<close> is called
  although no verification has taken place before it.
\<close>

theorem C3_counterexample:
  "\<not> precedes C_X509_REQ_verify C_X509_set_version
       (calls (final_frame (csr_crt demo_env demo_args)))"
  by (simp add: run_defs demo_defs precedes_def)

text \<open>
  Claim C3, amended. In every invocation the three PEM readers are called before the
  verification, and so are the assignments of the version, of the key of the CA as public
  key, of the serial number, of the subject and of the issuer. The assignment of the
  public key of the request, the two validity dates, the signing, the serialisation and
  the push of the result come after the verification, and each of them is reached only
  if the verification returned 1.
\<close>

theorem C3_verification_position:
  "(\<forall>d \<in> set [C_PEM_read_bio_RSAPrivateKey, C_PEM_read_bio_X509, C_PEM_read_bio_X509_REQ].
      precedes d C_X509_REQ_verify (calls (final_frame (csr_crt e L)))) \<and>
   (\<forall>b \<in> set [C_X509_set_version, C_X509_set_pubkey V_pKey, C_X509_set_serialNumber,
               C_X509_set_subject_name, C_X509_set_issuer_name].
      precedes b C_X509_REQ_verify (calls (final_frame (csr_crt e L)))) \<and>
   (\<forall>a \<in> set [C_X509_set_pubkey V_req_pubkey, C_X509_gmtime_adj_notBefore,
               C_X509_gmtime_adj_notAfter, C_X509_sign, C_PEM_write_bio_X509,
               C_lua_pushlstring].
      precedes C_X509_REQ_verify a (calls (final_frame (csr_crt e L))) \<and>
      (a \<in> set (calls (final_frame (csr_crt e L))) \<longrightarrow>
         verify_result e (final_frame (csr_crt e L)) = 1))"
proof -
  let ?tr = "calls (final_frame (csr_crt e L))"
  have order: "precedes a b ?tr" if "precedes a b program_order" for a b
    using calls_in_program_order that by (rule precedes_prefix)
  have stopped: "a \<notin> set ?tr"
    if "verify_result e (final_frame (csr_crt e L)) \<noteq> 1"
      and "a \<notin> set (take 20 program_order)" for a
  proof -
    from that(1) have "prefix ?tr (take 20 program_order)"
      using verified_or_stopped [of e L] by simp
    then have "set ?tr \<subseteq> set (take 20 program_order)"
      by (rule set_mono_prefix)
    with that(2) show ?thesis by blast
  qed
  have before:
    "\<forall>d \<in> set [C_PEM_read_bio_RSAPrivateKey, C_PEM_read_bio_X509, C_PEM_read_bio_X509_REQ].
       precedes d C_X509_REQ_verify ?tr"
    using source_order order by simp
  have assigned:
    "\<forall>b \<in> set [C_X509_set_version, C_X509_set_pubkey V_pKey, C_X509_set_serialNumber,
                C_X509_set_subject_name, C_X509_set_issuer_name].
       precedes b C_X509_REQ_verify ?tr"
    using source_order order by simp
  have after:
    "\<forall>a \<in> set [C_X509_set_pubkey V_req_pubkey, C_X509_gmtime_adj_notBefore,
                C_X509_gmtime_adj_notAfter, C_X509_sign, C_PEM_write_bio_X509,
                C_lua_pushlstring].
       precedes C_X509_REQ_verify a ?tr"
    using source_order order by simp
  have reached:
    "\<forall>a \<in> set [C_X509_set_pubkey V_req_pubkey, C_X509_gmtime_adj_notBefore,
                C_X509_gmtime_adj_notAfter, C_X509_sign, C_PEM_write_bio_X509,
                C_lua_pushlstring].
       a \<in> set ?tr \<longrightarrow> verify_result e (final_frame (csr_crt e L)) = 1"
    using source_order(2) stopped by blast
  from before assigned after reached show ?thesis by blast
qed

theorem C3_witness:
  "C_X509_sign \<in> set (calls (final_frame (csr_crt demo_env demo_args)))
     \<and> precedes C_X509_REQ_verify C_X509_sign (calls (final_frame (csr_crt demo_env demo_args)))
     \<and> precedes C_X509_set_issuer_name C_X509_REQ_verify
         (calls (final_frame (csr_crt demo_env demo_args)))
     \<and> verify_result demo_env (final_frame (csr_crt demo_env demo_args)) = 1"
  using C3_verification_position [of demo_env demo_args]
  by (simp add: run_defs demo_defs)


section \<open>C4: a CA blob that is no certificate\<close>

text \<open>
  Claim C4 does not hold of the code. The result of reading the CA certificate is never
  tested. With a key and a request that decode and a CA blob that does not, the invocation
  goes on through the request, the new certificate, its version, public key, serial number
  and subject, and then hands the NULL pointer to \<^verbatim>\<open>X509_get_subject_name\<close>. No
  diagnostic has been printed by then, and the invocation does not return.
\<close>

theorem C4_malformed_ca_reaches_builder:
  "PEM_read_bio_X509 demo_env ''not a certificate'' = None
     \<and> cacert (final_frame (csr_crt demo_env bad_ca_args)) = Null
     \<and> calls (final_frame (csr_crt demo_env bad_ca_args)) = take 17 program_order
     \<and> C_X509_new \<in> set (calls (final_frame (csr_crt demo_env bad_ca_args)))
     \<and> C_X509_set_subject_name \<in> set (calls (final_frame (csr_crt demo_env bad_ca_args)))
     \<and> last (calls (final_frame (csr_crt demo_env bad_ca_args))) = C_X509_get_subject_name
     \<and> stderr (final_frame (csr_crt demo_env bad_ca_args)) = []
     \<and> csr_crt demo_env bad_ca_args = Dies (final_frame (csr_crt demo_env bad_ca_args))"
  by (simp add: run_defs demo_defs program_order_def)

section \<open>C5: the validity window\<close>

text \<open>
  Claim C5 as stated, that notAfter is notBefore plus exactly 31536000 seconds, fails when
  the clock advances between the two calls of \<^verbatim>\<open>X509_gmtime_adj\<close>: in the world whose
  clock ticks once per reading the two dates are 31536001 seconds apart.
\<close>

theorem C5_counterexample:
  "issued (csr_crt ticking_env demo_args) \<noteq> None
     \<and> Option.bind (issued (csr_crt ticking_env demo_args)) notBefore = Some 1700000000
     \<and> Option.bind (issued (csr_crt ticking_env demo_args)) notAfter
         = Some (1700000000 + 31536000 + 1)"
  by (simp add: run_defs demo_defs)

text \<open>
  Claim C5, amended. In every successful invocation notBefore is the time read by the
  first call of \<^verbatim>\<open>X509_gmtime_adj\<close> and notAfter is the time read by the second call plus
  exactly 31536000 seconds, a constant that no calendar rule enters; notAfter is notBefore
  plus 31536000 whenever both calls read the same second.
\<close>

theorem C5_validity_from_two_clock_reads:
  assumes "issued (csr_crt e L) = Some cert"
  shows "notBefore cert = Some (time e 0)
           \<and> notAfter cert = Some (time e 1 + 31536000)
           \<and> (time e 1 = time e 0 \<longrightarrow>
                notAfter cert = map_option (\<lambda>t. t + 31536000) (notBefore cert))"
  using issued_fields [of e L] assms by simp

theorem C5_witness:
  "issued (csr_crt demo_env demo_args) = Some demo_cert
     \<and> time demo_env 1 = time demo_env 0
     \<and> notBefore demo_cert = Some 1700000000
     \<and> notAfter demo_cert = Some (1700000000 + 31536000)"
  using C5_validity_from_two_clock_reads [of demo_env demo_args demo_cert]
  by (simp add: run_defs demo_defs demo_cert_def)

section \<open>C6: version and serial number\<close>

text \<open>
  Claim C6. In every successful invocation the version field of the certificate holds 2,
  which is how X.509 encodes version 3, and the serial number is 0, whatever the
  environment and the arguments are.
\<close>

theorem C6_version_and_serial_fixed:
  assumes "issued (csr_crt e L) = Some cert"
  shows "version cert = Some 2 \<and> serialNumber cert = Some 0"
  using issued_fields [of e L] assms by simp

theorem C6_witness:
  "issued (csr_crt demo_env demo_args) = Some demo_cert
     \<and> version demo_cert = Some 2 \<and> serialNumber demo_cert = Some 0"
  using C6_version_and_serial_fixed [of demo_env demo_args demo_cert]
  by (simp add: run_defs demo_defs demo_cert_def)


section \<open>C7: the length of the string handed to Lua\<close>

text \<open>
  Claim C7. In every invocation that sets \<^verbatim>\<open>rc\<close> to 1, one string has been pushed for
  the caller; it is one byte longer than the PEM text in the output buffer, begins with
  that text and ends with the byte that lies behind it in memory.
\<close>

theorem C7_output_one_byte_longer:
  assumes "rc (final_frame (csr_crt e L)) = 1"
  shows "\<exists>fr cert s. final_frame (csr_crt e L) = fr \<and> issued (csr_crt e L) = Some cert
           \<and> outbio fr = Ptr (PEM_write_bio_X509 e cert)
           \<and> returned_values L fr = [LString s]
           \<and> length s = length (PEM_write_bio_X509 e cert) + 1
           \<and> take (length (PEM_write_bio_X509 e cert)) s = PEM_write_bio_X509 e cert
           \<and> s ! length (PEM_write_bio_X509 e cert) = past_end e 0"
proof -
  let ?fr = "final_frame (csr_crt e L)"
  from assms success_shape [of e L] obtain cert where
    cert: "newcert ?fr = Ptr cert" "outbio ?fr = Ptr (PEM_write_bio_X509 e cert)"
      "pushed ?fr = [read_bytes e (PEM_write_bio_X509 e cert)
                      (length (PEM_write_bio_X509 e cert) + 1)]"
    by auto
  let ?pem = "PEM_write_bio_X509 e cert"
  have dies: "csr_crt e L = Dies ?fr"
    using assms by (rule success_dies_in_cleanup)
  have "issued (Dies ?fr) = Some cert"
    using assms cert(1) by (simp add: deref_def)
  with dies have "issued (csr_crt e L) = Some cert"
    by simp
  moreover have "returned_values L ?fr = [LString (?pem @ [past_end e 0])]"
    using assms cert(3) by (simp add: returned_values_def read_bytes_one_past)
  ultimately show ?thesis
    using cert(2) by simp
qed

theorem C7_witness:
  "rc (final_frame (csr_crt demo_env demo_args)) = 1
     \<and> returned_values demo_args (final_frame (csr_crt demo_env demo_args)) =
         [LString ''-----BEGIN CERTIFICATE-----?'']
     \<and> length ''-----BEGIN CERTIFICATE-----?'' =
         length (PEM_write_bio_X509 demo_env demo_cert) + 1"
  using C7_output_one_byte_longer [of demo_env demo_args]
  by (simp add: run_defs demo_defs cleanup_defs returned_values_def read_bytes_def)

section \<open>C8: empty inputs\<close>

text \<open>The cleanup block on a frame in which no pointer variable has been assigned: it is
  survived exactly if every one of the nine variables happens to hold NULL.\<close>

lemma some_stale:
  "(\<exists>v. stale e v) \<longleftrightarrow>
     stale e V_pkeybio \<or> stale e V_pKey \<or> stale e V_cacertbio \<or> stale e V_cacert \<or>
     stale e V_req_pubkey \<or> stale e V_reqbio \<or> stale e V_certreq \<or> stale e V_newcert \<or>
     stale e V_outbio"
  by (metis var.exhaust)

lemma cleanup_nothing_assigned:
  assumes "pkeybio fr = Indeterminate" and "pKey fr = Indeterminate"
    and "cacertbio fr = Indeterminate" and "cacert fr = Indeterminate"
    and "req_pubkey fr = Indeterminate" and "reqbio fr = Indeterminate"
    and "certreq fr = Indeterminate" and "newcert fr = Indeterminate"
    and "outbio fr = Indeterminate"
  shows "finish (cleanup e fr) =
           (if \<exists>v. stale e v then Dies (settled (cleanup e fr))
            else Return (settled (cleanup e fr)))"
  using assms
  by (simp add: cleanup_def cleanup_block_def release_def finish_def settled_def some_stale)

lemma empty_input_exit:
  assumes "L = LString k # LString c # LString r # rest"
    and "k = [] \<or> c = [] \<or> r = []"
  shows "\<exists>pre. run (body e L) frame0 = Goto_error pre
           \<and> pkeybio pre = Indeterminate \<and> pKey pre = Indeterminate
           \<and> cacertbio pre = Indeterminate \<and> cacert pre = Indeterminate
           \<and> req_pubkey pre = Indeterminate \<and> reqbio pre = Indeterminate
           \<and> certreq pre = Indeterminate \<and> newcert pre = Indeterminate
           \<and> outbio pre = Indeterminate
           \<and> rc pre = 0 \<and> pushed pre = [] \<and> calls pre = [] \<and> allocs pre = []
           \<and> stderr pre =
               [if k = [] then ''pkey length should greater then zero!''
                else if c = [] then ''crt length should greater then zero!''
                else ''csr length should greater then zero!'']"
  using assms
  by (auto simp add: body_def step_defs aux_defs)

text \<open>
  Claim C8. If the three arguments are strings and one of them is empty, then at the end
  of the invocation \<^verbatim>\<open>rc\<close> is 0 and nothing has been pushed, no library call has been
  made and nothing acquired, and the only diagnostic names the first empty argument in
  the order private key, CA certificate, request; the specification counts each of these
  as a decode error. The invocation returns 0 to Lua, provided that the nine pointer
  variables whose declarations this exit jumps over all happen to hold NULL; otherwise it
  dies in the cleanup block.
\<close>

theorem C8_empty_input_rejected_first:
  assumes "L = LString k # LString c # LString r # rest"
    and "k = [] \<or> c = [] \<or> r = []"
  shows "\<exists>fr. final_frame (csr_crt e L) = fr
           \<and> csr_crt e L = (if \<exists>v. stale e v then Dies fr else Return fr)
           \<and> rc fr = 0
           \<and> returned_values L fr = []
           \<and> calls fr = [] \<and> allocs fr = []
           \<and> stderr fr =
               [if k = [] then ''pkey length should greater then zero!''
                else if c = [] then ''crt length should greater then zero!''
                else ''csr length should greater then zero!'']
           \<and> map spec_error_kind (stderr fr) = [Some DecodeError]"
proof -
  from empty_input_exit [OF assms, of e] obtain pre where
    exit: "run (body e L) frame0 = Goto_error pre"
    and unassigned: "pkeybio pre = Indeterminate" "pKey pre = Indeterminate"
      "cacertbio pre = Indeterminate" "cacert pre = Indeterminate"
      "req_pubkey pre = Indeterminate" "reqbio pre = Indeterminate"
      "certreq pre = Indeterminate" "newcert pre = Indeterminate"
      "outbio pre = Indeterminate"
    and quiet: "rc pre = 0" "pushed pre = []" "calls pre = []" "allocs pre = []"
    and diag: "stderr pre =
               [if k = [] then ''pkey length should greater then zero!''
                else if c = [] then ''crt length should greater then zero!''
                else ''csr length should greater then zero!'']"
    by blast
  let ?fr = "settled (cleanup e pre)"
  have result: "csr_crt e L = (if \<exists>v. stale e v then Dies ?fr else Return ?fr)"
    using exit cleanup_nothing_assigned [OF unassigned, of e] by (simp add: csr_crt_def)
  then have frame: "final_frame (csr_crt e L) = ?fr"
    by simp
  have kind: "map spec_error_kind (stderr ?fr) = [Some DecodeError]"
    using diag by (simp add: spec_error_kind_def)
  have "returned_values L ?fr = []"
    using quiet by (simp add: returned_values_def)
  with result frame kind quiet diag show ?thesis
    by simp
qed

theorem C8_witness:
  "(\<forall>v. \<not> stale demo_env v)
     \<and> csr_crt demo_env [LString ''KEY'', LString [], LString []] =
         Return (final_frame (csr_crt demo_env [LString ''KEY'', LString [], LString []]))
     \<and> stderr (final_frame (csr_crt demo_env [LString ''KEY'', LString [], LString []])) =
         [''crt length should greater then zero!'']
     \<and> calls (final_frame (csr_crt demo_env [LString ''KEY'', LString [], LString []])) = []"
  using C8_empty_input_rejected_first
    [of "[LString ''KEY'', LString [], LString []]" "''KEY''" "[]" "[]" "[]" demo_env]
  by (auto simp: demo_defs)

section \<open>C9: what the cleanup block releases\<close>

text \<open>No release function is ever handed the \<^verbatim>\<open>ASN1_INTEGER\<close> of the serial number, so
  every invocation that creates it leaves it behind.\<close>

lemma release_keeps_serial:
  "ob \<noteq> O_aserial \<Longrightarrow>
   O_aserial \<in> set (frees (settled (release e v ob l fr))) \<longleftrightarrow> O_aserial \<in> set (frees fr)"
  by (cases ob) (auto simp: release_def free_def settled_def split: local.split)

lemma cleanup_keeps_serial:
  "O_aserial \<in> set (frees (settled (cleanup e fr))) \<longleftrightarrow> O_aserial \<in> set (frees fr)"
  unfolding cleanup_def
  by (rule run_releases_keeps [where f = "\<lambda>fr. O_aserial \<in> set (frees fr)"])
     (auto simp: cleanup_block_def release_keeps_serial)

lemma serial_never_released:
  "O_aserial \<notin> set (frees (final_frame (csr_crt e L)))"
  unfolding csr_crt_def body_def
  by (simp add: step_defs aux_defs Let_def cleanup_keeps_serial
        split: option.split lua_value.split local.split)

lemma serial_acquired:
  "C_ASN1_INTEGER_new \<in> set (calls (final_frame (csr_crt e L))) \<longrightarrow>
   O_aserial \<in> set (allocs (final_frame (csr_crt e L)))"
  unfolding csr_crt_def body_def
  by (simp add: step_defs aux_defs Let_def
        split: option.split lua_value.split local.split)

lemma serial_leaks_on_every_path:
  "C_ASN1_INTEGER_new \<in> set (calls (final_frame (csr_crt e L))) \<Longrightarrow>
   O_aserial \<in> set (leaked (final_frame (csr_crt e L)))"
  using serial_never_released [of e L] serial_acquired [of e L]
  by (simp add: leaked_def)

text \<open>
  Claim C9 does not hold of the code. In the successful demo invocation the
  \<^verbatim>\<open>ASN1_INTEGER\<close> made for the serial number is never released, and the buffer of the
  output BIO is released twice: by \<^verbatim>\<open>BUF_MEM_free\<close> in the body and again, as part of
  the BIO, by \<^verbatim>\<open>BIO_free_all\<close> in the cleanup block.
\<close>

theorem C9_serial_leaked_buffer_freed_twice:
  "leaked (final_frame (csr_crt demo_env demo_args)) = [O_aserial]
     \<and> count_list (frees (final_frame (csr_crt demo_env demo_args))) O_bptr = 2
     \<and> \<not> released_exactly_once (final_frame (csr_crt demo_env demo_args))"
  by (simp add: run_defs demo_defs cleanup_defs leaked_def
        released_exactly_once_def read_bytes_def)

text \<open>On an exit that precedes the declarations of the pointer variables, the cleanup
  block tests variables that were never assigned and hands the first one that is not NULL
  to its release function.\<close>

lemma early_exit_releases_stale_pointer:
  "allocs (final_frame (csr_crt stale_env [])) = []
     \<and> frees (final_frame (csr_crt stale_env [])) = [O_stale V_pkeybio]"
  by (simp add: run_defs demo_defs cleanup_defs)

section \<open>C10: whether the function returns to Lua\<close>

text \<open>Every \<^verbatim>\<open>luaL_checklstring\<close> is reached only after \<^verbatim>\<open>lua_isstring\<close> has answered 1
  for the same index, and then it does not raise.\<close>

lemma checklstring_guarded:
  "lua_isstring L i = 1 \<Longrightarrow> \<exists>s. luaL_checklstring e L i = Some s"
  by (auto simp: lua_isstring_def luaL_checklstring_def split: if_splits lua_value.splits)

lemma arg_steps_unanswered:
  assumes "unanswered fr"
  shows "case arg_pkey e L fr of Continue fr' \<Rightarrow> unanswered fr'
         | Goto_error fr' \<Rightarrow> unanswered fr' | Lua_error fr' \<Rightarrow> False | Fault fr' \<Rightarrow> unanswered fr'"
    and "case arg_crt e L fr of Continue fr' \<Rightarrow> unanswered fr'
         | Goto_error fr' \<Rightarrow> unanswered fr' | Lua_error fr' \<Rightarrow> False | Fault fr' \<Rightarrow> unanswered fr'"
    and "case arg_csr e L fr of Continue fr' \<Rightarrow> unanswered fr'
         | Goto_error fr' \<Rightarrow> unanswered fr' | Lua_error fr' \<Rightarrow> False | Fault fr' \<Rightarrow> unanswered fr'"
proof -
  show "case arg_pkey e L fr of Continue fr' \<Rightarrow> unanswered fr'
        | Goto_error fr' \<Rightarrow> unanswered fr' | Lua_error fr' \<Rightarrow> False | Fault fr' \<Rightarrow> unanswered fr'"
  proof (cases "lua_isstring L 1 = 1")
    case True
    then obtain s where "luaL_checklstring e L 1 = Some s"
      using checklstring_guarded by blast
    with True assms show ?thesis
      by (simp add: arg_pkey_def unanswered_def fprintf_stderr_def)
  next
    case False
    with assms show ?thesis
      by (simp add: arg_pkey_def unanswered_def fprintf_stderr_def)
  qed
  show "case arg_crt e L fr of Continue fr' \<Rightarrow> unanswered fr'
        | Goto_error fr' \<Rightarrow> unanswered fr' | Lua_error fr' \<Rightarrow> False | Fault fr' \<Rightarrow> unanswered fr'"
  proof (cases "lua_isstring L 2 = 1")
    case True
    then obtain s where "luaL_checklstring e L 2 = Some s"
      using checklstring_guarded by blast
    with True assms show ?thesis
      by (simp add: arg_crt_def unanswered_def fprintf_stderr_def)
  next
    case False
    with assms show ?thesis
      by (simp add: arg_crt_def unanswered_def fprintf_stderr_def)
  qed
  show "case arg_csr e L fr of Continue fr' \<Rightarrow> unanswered fr'
        | Goto_error fr' \<Rightarrow> unanswered fr' | Lua_error fr' \<Rightarrow> False | Fault fr' \<Rightarrow> unanswered fr'"
  proof (cases "lua_isstring L 3 = 1")
    case True
    then obtain s where "luaL_checklstring e L 3 = Some s"
      using checklstring_guarded by blast
    with True assms show ?thesis
      by (simp add: arg_csr_def unanswered_def fprintf_stderr_def)
  next
    case False
    with assms show ?thesis
      by (simp add: arg_csr_def unanswered_def fprintf_stderr_def)
  qed
qed

lemma library_steps_unanswered:
  assumes "unanswered fr"
    and "s \<in> set [check_argc L, load_pkey e, load_cacert e, load_csr e, new_cert e,
      set_version e, set_pubkey_pKey e, set_serial e, set_subject e, set_issuer e,
      get_req_pubkey e, verify_req e, set_pubkey_req e, set_notBefore e, set_notAfter e,
      sign_cert e, write_cert e]"
  shows "case s fr of Continue fr' \<Rightarrow> unanswered fr'
         | Goto_error fr' \<Rightarrow> unanswered fr' | Lua_error fr' \<Rightarrow> False | Fault fr' \<Rightarrow> unanswered fr'"
  using assms
  by (auto simp: unanswered_def step_defs fprintf_stderr_def err_descr_to_stderr_def call_def
        alloc_def with_newcert_def X509_gmtime_adj_def Let_def split: option.split)

lemma before_push:
  "case run (butlast (body e L)) frame0 of
     Continue fr' \<Rightarrow> unanswered fr'
   | Goto_error fr' \<Rightarrow> unanswered fr'
   | Lua_error fr' \<Rightarrow> False | Fault fr' \<Rightarrow> unanswered fr'"
proof (rule run_invariant)
  show "unanswered frame0" by (simp add: unanswered_def frame0_def)
next
  fix s fr
  assume s: "s \<in> set (butlast (body e L))" and fr: "unanswered fr"
  from s consider "s = arg_pkey e L" | "s = arg_crt e L" | "s = arg_csr e L"
    | "s \<in> set [check_argc L, load_pkey e, load_cacert e, load_csr e, new_cert e,
        set_version e, set_pubkey_pKey e, set_serial e, set_subject e, set_issuer e,
        get_req_pubkey e, verify_req e, set_pubkey_req e, set_notBefore e, set_notAfter e,
        sign_cert e, write_cert e]"
    by (auto simp: body_def)
  then show "case s fr of Continue fr' \<Rightarrow> unanswered fr'
             | Goto_error fr' \<Rightarrow> unanswered fr' | Lua_error fr' \<Rightarrow> False | Fault fr' \<Rightarrow> unanswered fr'"
    using arg_steps_unanswered [OF fr] library_steps_unanswered [OF fr] by cases auto
qed


text \<open>So no invocation leaves \<^verbatim>\<open>csr_crt\<close> by a Lua error.\<close>

lemma csr_crt_never_raises: "csr_crt e L \<noteq> Raise fr"
proof -
  have parts: "body e L = butlast (body e L) @ [push_result e]"
    by (simp add: body_def)
  have "run (body e L) frame0 \<noteq> Lua_error fr"
  proof (cases "run (butlast (body e L)) frame0")
    case (Lua_error fr')
    with before_push [of e L] show ?thesis by simp
  qed (subst parts, subst run_append, simp add: push_result_def Let_def)+
  then show ?thesis
    by (auto simp: csr_crt_def finish_def split: flow.splits sum.splits)
qed

text \<open>
  Claim C10 does not hold of the code. No Lua error is raised, and an invocation that
  returns does so with 0 and no value; but not every invocation returns. In the demo
  world the valid triple ends in the second release of the output buffer, the triple with
  a CA blob that is no certificate ends in \<^verbatim>\<open>X509_get_subject_name\<close> of the NULL pointer,
  and the call without arguments ends, where unassigned pointer variables are not NULL,
  in the release of the first of them.
\<close>

theorem C10_invocations_that_do_not_return:
  "csr_crt demo_env demo_args = Dies (final_frame (csr_crt demo_env demo_args))
     \<and> csr_crt demo_env bad_ca_args = Dies (final_frame (csr_crt demo_env bad_ca_args))
     \<and> csr_crt stale_env [] = Dies (final_frame (csr_crt stale_env []))
     \<and> frees (final_frame (csr_crt stale_env [])) = [O_stale V_pkeybio]"
  by (simp add: run_defs demo_defs cleanup_defs)

end
